theory Spec2Isabelle
  imports Complex_Main
begin

section \<open>Python and numpy primitives\<close>

text \<open>
  The exceptions the module can raise.  \<open>NoEntityError\<close> is the class
  \<^verbatim>\<open>PhysicsState.NoEntityError\<close> (a subclass of ValueError in the source); a plain
  \<^verbatim>\<open>list.index\<close> miss is \<open>ValueError\<close>; a failed \<^verbatim>\<open>assert\<close> is \<open>AssertionError\<close>.
\<close>

datatype error = IndexError | ValueError | NoEntityError | AssertionError

text \<open>\<^verbatim>\<open>xs.index(v)\<close>: the first position of \<open>v\<close>; \<open>None\<close> stands for the ValueError.\<close>

fun list_index :: "'a list \<Rightarrow> 'a \<Rightarrow> nat option" where
  "list_index [] v = None"
| "list_index (a # as) v = (if a = v then Some 0 else map_option Suc (list_index as v))"

text \<open>
  Index normalisation shared by Python lists and numpy arrays: a negative index counts
  from the end, anything still outside \<open>[0, len)\<close> raises IndexError.
\<close>

definition py_index :: "nat \<Rightarrow> int \<Rightarrow> error + nat" where
  "py_index len i =
     (let j = (if i < 0 then int len + i else i)
      in if 0 \<le> j \<and> j < int len then Inr (nat j) else Inl IndexError)"

definition py_getitem :: "'a list \<Rightarrow> int \<Rightarrow> error + 'a" where
  "py_getitem xs i = (case py_index (length xs) i of Inl e \<Rightarrow> Inl e | Inr j \<Rightarrow> Inr (xs ! j))"

text \<open>
  Clamping of one slice bound (\<^verbatim>\<open>a[lo:hi]\<close>): negative bounds count from the end, and
  every bound is clipped into \<open>[0, len]\<close>.
\<close>

definition py_clamp :: "nat \<Rightarrow> int \<Rightarrow> nat" where
  "py_clamp len i = (if i < 0 then nat (max 0 (int len + i)) else min len (nat i))"

text \<open>
  The y-vector is a one-dimensional float64 array.  A cell holds a finite float64 value
  and is modelled as the real number that value denotes; NaN and the infinities are
  outside the type.  \<open>int(v)\<close> truncates towards zero, \<open>bool(v)\<close> is \<open>v \<noteq> 0\<close>, and a
  bool is stored as 0 or 1.
\<close>

definition py_int :: "real \<Rightarrow> int" where
  "py_int v = (if 0 \<le> v then \<lfloor>v\<rfloor> else \<lceil>v\<rceil>)"

definition py_bool :: "real \<Rightarrow> bool" where
  "py_bool v = (v \<noteq> 0)"

text \<open>
  Rounding of an exact sum to float64: 53 significant bits, to the nearest value, ties
  to the even significand (results in the normal range, as the sums below are).
\<close>

definition round_half_even :: "real \<Rightarrow> int" where
  "round_half_even x =
     (let f = \<lfloor>x\<rfloor>; d = x - of_int f
      in if d < 1 / 2 then f else if 1 / 2 < d then f + 1 else if even f then f else f + 1)"

definition float64_round :: "real \<Rightarrow> real" where
  "float64_round x =
     (if x = 0 then 0
      else (let u = 2 powr (of_int \<lfloor>log 2 \<bar>x\<bar>\<rfloor> - 52)
            in of_int (round_half_even (x / u)) * u))"

text \<open>
  C's \<^verbatim>\<open>fmod\<close>: the remainder of the truncated quotient.  Its result is always a
  float64 value, so it is exact.
\<close>

definition fmod :: "real \<Rightarrow> real \<Rightarrow> real" where
  "fmod a b = a - b * of_int (py_int (a / b))"

text \<open>
  \<^verbatim>\<open>np.mod\<close> on float64 with a non-zero divisor: the \<^verbatim>\<open>fmod\<close> remainder, to which the
  divisor is added, in floating point, when the two differ in sign; a zero remainder
  takes the sign of the divisor.
\<close>

definition np_mod :: "real \<Rightarrow> real \<Rightarrow> real" where
  "np_mod v m =
     (let md = fmod v m
      in if md \<noteq> 0 then (if (m < 0) \<noteq> (md < 0) then float64_round (md + m) else md)
         else 0)"

text \<open>
  \<^verbatim>\<open>2 * np.pi\<close>: \<^verbatim>\<open>np.pi\<close> is the float64 value nearest to \<open>\<pi>\<close>, 884279719003555 / 2^48,
  and doubling it is exact.
\<close>

definition TWO_PI :: real where
  "TWO_PI = 884279719003555 / 2 ^ 47"

text \<open>
  numpy slices do not copy: a slice is a window (start, length) onto the one buffer that
  owns the cells, and every read and write through it goes to that buffer.
\<close>

record slice =
  sl_start :: nat
  sl_len :: nat

definition np_whole :: "real list \<Rightarrow> slice" where
  "np_whole buf = \<lparr>sl_start = 0, sl_len = length buf\<rparr>"

definition np_slice :: "slice \<Rightarrow> int \<Rightarrow> int \<Rightarrow> slice" where
  "np_slice s lo hi =
     (let a = py_clamp (sl_len s) lo; b = py_clamp (sl_len s) hi
      in \<lparr>sl_start = sl_start s + a, sl_len = b - a\<rparr>)"

definition np_slice_from :: "slice \<Rightarrow> int \<Rightarrow> slice" where
  "np_slice_from s lo =
     (let a = py_clamp (sl_len s) lo in \<lparr>sl_start = sl_start s + a, sl_len = sl_len s - a\<rparr>)"

definition np_getitem :: "real list \<Rightarrow> slice \<Rightarrow> int \<Rightarrow> error + real" where
  "np_getitem buf s i =
     (case py_index (sl_len s) i of Inl e \<Rightarrow> Inl e | Inr j \<Rightarrow> Inr (buf ! (sl_start s + j)))"

definition np_setitem :: "real list \<Rightarrow> slice \<Rightarrow> int \<Rightarrow> real \<Rightarrow> error + real list" where
  "np_setitem buf s i v =
     (case py_index (sl_len s) i of Inl e \<Rightarrow> Inl e | Inr j \<Rightarrow> Inr (buf[sl_start s + j := v]))"

text \<open>\<^verbatim>\<open>np.mod(a, m, out=a)\<close> on a slice: every cell of the window is replaced in place.\<close>

definition np_mod_out :: "real list \<Rightarrow> slice \<Rightarrow> real \<Rightarrow> real list" where
  "np_mod_out buf s m =
     take (sl_start s) buf
     @ map (\<lambda>v. np_mod v m) (take (sl_len s) (drop (sl_start s) buf))
     @ drop (sl_start s + sl_len s) buf"

text \<open>
  \<^verbatim>\<open>np.empty(len)\<close> allocates without initialising: the contents are whatever \<open>junk\<close> was
  in memory.
\<close>

definition np_empty :: "(nat \<Rightarrow> real) \<Rightarrow> nat \<Rightarrow> real list" where
  "np_empty junk len = map junk [0..<len]"

text \<open>Sequencing of steps that may raise: an error ends the sequence.\<close>

definition bind_err :: "error + 'a \<Rightarrow> ('a \<Rightarrow> error + 'b) \<Rightarrow> error + 'b" where
  "bind_err m f = (case m of Inl e \<Rightarrow> Inl e | Inr v \<Rightarrow> f v)"

text \<open>Loops whose body may raise: the first error ends the loop.\<close>

fun fold_err :: "('a \<Rightarrow> 's \<Rightarrow> error + 's) \<Rightarrow> 'a list \<Rightarrow> 's \<Rightarrow> error + 's" where
  "fold_err f [] s = Inr s"
| "fold_err f (a # as) s = (case f a s of Inl e \<Rightarrow> Inl e | Inr s' \<Rightarrow> fold_err f as s')"


section \<open>The structured snapshot (orbitx\_pb2 messages)\<close>

text \<open>
  Modelled from the spec: the protobuf declarations of \<^verbatim>\<open>orbitx.proto\<close> (generated module
  \<^verbatim>\<open>orbitx_pb2\<close>) are not part of the source file.  The messages carry the fields the
  source reads and writes, in the order the spec's data model and the type stubs of
  class \<^verbatim>\<open>Entity\<close> list them.
\<close>

record Entity_proto =
  e_name :: string
  e_x :: real
  e_y :: real
  e_vx :: real
  e_vy :: real
  e_r :: real
  e_mass :: real
  e_heading :: real
  e_spin :: real
  e_fuel :: real
  e_throttle :: real
  e_landed_on :: string
  e_broken :: bool
  e_artificial :: bool
  e_atmosphere_thickness :: real
  e_atmosphere_scaling :: real

record Component_proto =
  c_connected :: bool
  c_temperature :: real
  c_resistance :: real
  c_voltage :: real
  c_current :: real
  c_attached_to_coolant_loop :: int

record CoolantLoop_proto =
  l_coolant_temp :: real
  l_primary_pump_on :: bool
  l_secondary_pump_on :: bool

record Radiator_proto =
  r_attached_to_coolant_loop :: int
  r_functioning :: bool

record EngineeringState_proto =
  components :: "Component_proto list"
  coolant_loops :: "CoolantLoop_proto list"
  radiators :: "Radiator_proto list"
  master_alarm :: bool
  radiation_alarm :: bool
  asteroid_alarm :: bool
  hab_reactor_alarm :: bool
  ayse_reactor_alarm :: bool
  hab_gnomes :: bool

record PhysicalState_proto =
  entities :: "Entity_proto list"
  timestamp :: real
  srb_time :: real
  time_acc :: real
  reference :: string
  target :: string
  navmode :: int
  parachute_deployed :: bool
  engineering :: EngineeringState_proto

section \<open>Field layout tables\<close>

text \<open>
  Modelled from the spec: \<^verbatim>\<open>_PER_ENTITY_MUTABLE_FIELDS\<close> is the descriptor's field list
  without the unchanging fields (name, mass, r, artificial, atmosphere\_thickness,
  atmosphere\_scaling), in declaration order.
\<close>

datatype mutable_field =
  F_x | F_y | F_vx | F_vy | F_heading | F_spin | F_fuel | F_throttle | F_landed_on | F_broken

definition PER_ENTITY_MUTABLE_FIELDS :: "mutable_field list" where
  "PER_ENTITY_MUTABLE_FIELDS =
     [F_x, F_y, F_vx, F_vy, F_heading, F_spin, F_fuel, F_throttle, F_landed_on, F_broken]"

text \<open>\<^verbatim>\<open>_ENTITY_FIELD_ORDER\<close>: the position of each name in the list above.\<close>

fun ENTITY_FIELD_ORDER :: "mutable_field \<Rightarrow> nat" where
  "ENTITY_FIELD_ORDER F_x = 0"
| "ENTITY_FIELD_ORDER F_y = 1"
| "ENTITY_FIELD_ORDER F_vx = 2"
| "ENTITY_FIELD_ORDER F_vy = 3"
| "ENTITY_FIELD_ORDER F_heading = 4"
| "ENTITY_FIELD_ORDER F_spin = 5"
| "ENTITY_FIELD_ORDER F_fuel = 6"
| "ENTITY_FIELD_ORDER F_throttle = 7"
| "ENTITY_FIELD_ORDER F_landed_on = 8"
| "ENTITY_FIELD_ORDER F_broken = 9"

text \<open>
  The module \<^verbatim>\<open>orbitx.strings\<close> is not part of the source file; its three name tables
  (\<^verbatim>\<open>COMPONENT_NAMES\<close>, \<^verbatim>\<open>COOLANT_LOOP_NAMES\<close>, \<^verbatim>\<open>RADIATOR_NAMES\<close>) are a parameter
  of everything below.
\<close>

record strings =
  COMPONENT_NAMES :: "string list"
  COOLANT_LOOP_NAMES :: "string list"
  RADIATOR_NAMES :: "string list"

text \<open>
  Modelled from the spec: the constants \<^verbatim>\<open>strings.HABITAT\<close> and \<^verbatim>\<open>strings.AYSE\<close>, which
  are missing with that module; their values are the names of the spec's
  craft-resolution scenario.
\<close>

definition HABITAT :: string where
  "HABITAT = ''Habitat''"

definition AYSE :: string where
  "AYSE = ''AYSE''"

definition N_COMPONENTS :: "strings \<Rightarrow> nat" where
  "N_COMPONENTS P = length (COMPONENT_NAMES P)"

definition N_COOLANT_LOOPS :: "strings \<Rightarrow> nat" where
  "N_COOLANT_LOOPS P = length (COOLANT_LOOP_NAMES P)"

definition N_RADIATORS :: "strings \<Rightarrow> nat" where
  "N_RADIATORS P = length (RADIATOR_NAMES P)"

text \<open>
  Modelled from the spec: the field counts of the three descriptors, which are missing
  with the protobuf declarations; they are the widths the three view classes index with
  (offsets 0 to 5, 0 to 2 and 0 to 1).
\<close>

definition N_COMPONENT_FIELDS :: nat where
  "N_COMPONENT_FIELDS = 6"

definition N_COOLANT_FIELDS :: nat where
  "N_COOLANT_FIELDS = 3"

definition N_RADIATOR_FIELDS :: nat where
  "N_RADIATOR_FIELDS = 2"

definition N_ENGINEERING_FIELDS :: "strings \<Rightarrow> nat" where
  "N_ENGINEERING_FIELDS P =
     N_COMPONENTS P * N_COMPONENT_FIELDS
     + N_COOLANT_LOOPS P * N_COOLANT_FIELDS
     + N_RADIATORS P * N_RADIATOR_FIELDS"

definition COMPONENT_START_INDEX :: int where
  "COMPONENT_START_INDEX = 0"

definition COOLANT_START_INDEX :: "strings \<Rightarrow> int" where
  "COOLANT_START_INDEX P = int (N_COMPONENTS P * N_COMPONENT_FIELDS)"

definition RADIATOR_START_INDEX :: "strings \<Rightarrow> int" where
  "RADIATOR_START_INDEX P = COOLANT_START_INDEX P + int (N_COOLANT_LOOPS P * N_COOLANT_FIELDS)"

definition NO_INDEX :: int where
  "NO_INDEX = - 1"

definition N_SINGULAR_ELEMENTS :: nat where
  "N_SINGULAR_ELEMENTS = 2"

definition ENTITY_START_INDEX :: int where
  "ENTITY_START_INDEX = 0"

definition ENGINEERING_START_INDEX :: "strings \<Rightarrow> int" where
  "ENGINEERING_START_INDEX P = - int (N_ENGINEERING_FIELDS P)"

definition SRB_TIME_INDEX :: "strings \<Rightarrow> int" where
  "SRB_TIME_INDEX P = ENGINEERING_START_INDEX P - 2"

definition TIME_ACC_INDEX :: "strings \<Rightarrow> int" where
  "TIME_ACC_INDEX P = SRB_TIME_INDEX P + 1"

section \<open>The container and its views\<close>

text \<open>
  \<^verbatim>\<open>EngineeringState\<close> keeps \<open>_array\<close>, a numpy view of the owner's y-vector; its
  \<open>_proto_state\<close> is the \<open>engineering\<close> sub-message of the owner's snapshot, so it is read
  through the owner.
\<close>

record EngineeringState =
  eng_array :: slice

record PhysicsState =
  ps_proto_state :: PhysicalState_proto
  ps_n :: nat
  ps_entity_names :: "string list"
  ps_array_rep :: "real list"
  ps_engineering :: EngineeringState
  ps_entities_with_atmospheres :: "nat list option"

text \<open>
  Objects have identity: a container lives at an address of the heap, and an
  \<^verbatim>\<open>_EntityView\<close> holds the address of its creator and a row index.  An \<^verbatim>\<open>Entity\<close> is
  either the plain wrapper of a standalone record or such a view.
\<close>

type_synonym addr = nat

type_synonym heap = "addr \<Rightarrow> PhysicsState"

datatype Entity = Entity Entity_proto | EntityView (ev_creator: addr) (ev_index: int)

text \<open>An index argument of type \<^verbatim>\<open>Union[str, int]\<close>.\<close>

datatype key = Name string | Pos int

subsection \<open>Name/index resolver\<close>

definition name_to_index :: "string list \<Rightarrow> string \<Rightarrow> error + int" where
  "name_to_index names name =
     (if name \<noteq> ''''
      then (case list_index names name of None \<Rightarrow> Inl NoEntityError | Some i \<Rightarrow> Inr (int i))
      else Inr NO_INDEX)"

definition index_to_name :: "string list \<Rightarrow> real \<Rightarrow> error + string" where
  "index_to_name names index =
     (let i = py_int index in if i \<noteq> NO_INDEX then py_getitem names i else Inr '''')"

subsection \<open>Entity view accessors\<close>

text \<open>
  The three accessor pairs the module-level loop generates for a mutable field, by the
  field's type; \<open>C\<close> is the creator's state, \<open>index\<close> the view's row, \<open>field_n\<close> the
  column of the field.
\<close>

definition entity_view_cell :: "PhysicsState \<Rightarrow> int \<Rightarrow> nat \<Rightarrow> int" where
  "entity_view_cell C index field_n = int (ps_n C) * int field_n + index"

definition entity_view_float_fget :: "PhysicsState \<Rightarrow> int \<Rightarrow> nat \<Rightarrow> error + real" where
  "entity_view_float_fget C index field_n =
     np_getitem (ps_array_rep C) (np_whole (ps_array_rep C)) (entity_view_cell C index field_n)"

definition entity_view_float_fset :: "PhysicsState \<Rightarrow> int \<Rightarrow> nat \<Rightarrow> real \<Rightarrow> error + PhysicsState" where
  "entity_view_float_fset C index field_n val =
     (case np_setitem (ps_array_rep C) (np_whole (ps_array_rep C))
             (entity_view_cell C index field_n) val of
        Inl e \<Rightarrow> Inl e
      | Inr buf \<Rightarrow> Inr (C\<lparr>ps_array_rep := buf\<rparr>))"

definition entity_view_bool_fget :: "PhysicsState \<Rightarrow> int \<Rightarrow> nat \<Rightarrow> error + bool" where
  "entity_view_bool_fget C index field_n =
     (case np_getitem (ps_array_rep C) (np_whole (ps_array_rep C))
             (entity_view_cell C index field_n) of
        Inl e \<Rightarrow> Inl e
      | Inr v \<Rightarrow> Inr (py_bool v))"

definition entity_view_bool_fset :: "PhysicsState \<Rightarrow> int \<Rightarrow> nat \<Rightarrow> bool \<Rightarrow> error + PhysicsState" where
  "entity_view_bool_fset C index field_n val =
     (case np_setitem (ps_array_rep C) (np_whole (ps_array_rep C))
             (entity_view_cell C index field_n) (of_bool val) of
        Inl e \<Rightarrow> Inl e
      | Inr buf \<Rightarrow> Inr (C\<lparr>ps_array_rep := buf\<rparr>))"

definition entity_view_landed_on_fget :: "PhysicsState \<Rightarrow> int \<Rightarrow> nat \<Rightarrow> error + string" where
  "entity_view_landed_on_fget C index field_n =
     (case np_getitem (ps_array_rep C) (np_whole (ps_array_rep C))
             (entity_view_cell C index field_n) of
        Inl e \<Rightarrow> Inl e
      | Inr v \<Rightarrow>
          (let entity_index = py_int v
           in if entity_index = NO_INDEX then Inr ''''
              else py_getitem (ps_entity_names C) entity_index))"

text \<open>The right-hand side, the name lookup, is evaluated before the store.\<close>

definition entity_view_landed_on_fset :: "PhysicsState \<Rightarrow> int \<Rightarrow> nat \<Rightarrow> string \<Rightarrow> error + PhysicsState" where
  "entity_view_landed_on_fset C index field_n val =
     (case name_to_index (ps_entity_names C) val of
        Inl e \<Rightarrow> Inl e
      | Inr k \<Rightarrow>
          (case np_setitem (ps_array_rep C) (np_whole (ps_array_rep C))
                  (entity_view_cell C index field_n) (of_int k) of
             Inl e \<Rightarrow> Inl e
           | Inr buf \<Rightarrow> Inr (C\<lparr>ps_array_rep := buf\<rparr>)))"

text \<open>The same accessors on a view object: they act on the creator, found by address.\<close>

definition view_get_float :: "heap \<Rightarrow> addr \<Rightarrow> int \<Rightarrow> mutable_field \<Rightarrow> error + real" where
  "view_get_float h a i f = entity_view_float_fget (h a) i (ENTITY_FIELD_ORDER f)"

definition view_set_float :: "heap \<Rightarrow> addr \<Rightarrow> int \<Rightarrow> mutable_field \<Rightarrow> real \<Rightarrow> error + heap" where
  "view_set_float h a i f val =
     (case entity_view_float_fset (h a) i (ENTITY_FIELD_ORDER f) val of
        Inl e \<Rightarrow> Inl e
      | Inr C \<Rightarrow> Inr (h(a := C)))"

definition view_get_landed_on :: "heap \<Rightarrow> addr \<Rightarrow> int \<Rightarrow> error + string" where
  "view_get_landed_on h a i = entity_view_landed_on_fget (h a) i (ENTITY_FIELD_ORDER F_landed_on)"

definition view_set_landed_on :: "heap \<Rightarrow> addr \<Rightarrow> int \<Rightarrow> string \<Rightarrow> error + heap" where
  "view_set_landed_on h a i val =
     (case entity_view_landed_on_fset (h a) i (ENTITY_FIELD_ORDER F_landed_on) val of
        Inl e \<Rightarrow> Inl e
      | Inr C \<Rightarrow> Inr (h(a := C)))"

text \<open>
  The ten mutable fields as the tuples of \<^verbatim>\<open>as_proto\<close> and \<^verbatim>\<open>__setitem__\<close> list them.
\<close>

record mutable_fields =
  m_x :: real
  m_y :: real
  m_vx :: real
  m_vy :: real
  m_heading :: real
  m_spin :: real
  m_fuel :: real
  m_throttle :: real
  m_landed_on :: string
  m_broken :: bool

definition proto_fields :: "Entity_proto \<Rightarrow> mutable_fields" where
  "proto_fields e =
     \<lparr>m_x = e_x e, m_y = e_y e, m_vx = e_vx e, m_vy = e_vy e, m_heading = e_heading e,
      m_spin = e_spin e, m_fuel = e_fuel e, m_throttle = e_throttle e,
      m_landed_on = e_landed_on e, m_broken = e_broken e\<rparr>"


text \<open>Reading the ten fields through a view, left to right; the first error wins.\<close>

definition read_view_fields :: "PhysicsState \<Rightarrow> int \<Rightarrow> error + mutable_fields" where
  "read_view_fields C i =
     bind_err (entity_view_float_fget C i (ENTITY_FIELD_ORDER F_x)) (\<lambda>vx0.
     bind_err (entity_view_float_fget C i (ENTITY_FIELD_ORDER F_y)) (\<lambda>vy0.
     bind_err (entity_view_float_fget C i (ENTITY_FIELD_ORDER F_vx)) (\<lambda>vvx.
     bind_err (entity_view_float_fget C i (ENTITY_FIELD_ORDER F_vy)) (\<lambda>vvy.
     bind_err (entity_view_float_fget C i (ENTITY_FIELD_ORDER F_heading)) (\<lambda>vh.
     bind_err (entity_view_float_fget C i (ENTITY_FIELD_ORDER F_spin)) (\<lambda>vs.
     bind_err (entity_view_float_fget C i (ENTITY_FIELD_ORDER F_fuel)) (\<lambda>vf.
     bind_err (entity_view_float_fget C i (ENTITY_FIELD_ORDER F_throttle)) (\<lambda>vt.
     bind_err (entity_view_landed_on_fget C i (ENTITY_FIELD_ORDER F_landed_on)) (\<lambda>vl.
     bind_err (entity_view_bool_fget C i (ENTITY_FIELD_ORDER F_broken)) (\<lambda>vb.
     Inr \<lparr>m_x = vx0, m_y = vy0, m_vx = vvx, m_vy = vvy, m_heading = vh, m_spin = vs,
          m_fuel = vf, m_throttle = vt, m_landed_on = vl, m_broken = vb\<rparr>))))))))))"

text \<open>Assigning the ten fields through a view, left to right.\<close>

definition write_view_fields :: "PhysicsState \<Rightarrow> int \<Rightarrow> mutable_fields \<Rightarrow> error + PhysicsState" where
  "write_view_fields C i m =
     bind_err (entity_view_float_fset C i (ENTITY_FIELD_ORDER F_x) (m_x m)) (\<lambda>C1.
     bind_err (entity_view_float_fset C1 i (ENTITY_FIELD_ORDER F_y) (m_y m)) (\<lambda>C2.
     bind_err (entity_view_float_fset C2 i (ENTITY_FIELD_ORDER F_vx) (m_vx m)) (\<lambda>C3.
     bind_err (entity_view_float_fset C3 i (ENTITY_FIELD_ORDER F_vy) (m_vy m)) (\<lambda>C4.
     bind_err (entity_view_float_fset C4 i (ENTITY_FIELD_ORDER F_heading) (m_heading m)) (\<lambda>C5.
     bind_err (entity_view_float_fset C5 i (ENTITY_FIELD_ORDER F_spin) (m_spin m)) (\<lambda>C6.
     bind_err (entity_view_float_fset C6 i (ENTITY_FIELD_ORDER F_fuel) (m_fuel m)) (\<lambda>C7.
     bind_err (entity_view_float_fset C7 i (ENTITY_FIELD_ORDER F_throttle) (m_throttle m)) (\<lambda>C8.
     bind_err (entity_view_landed_on_fset C8 i (ENTITY_FIELD_ORDER F_landed_on) (m_landed_on m)) (\<lambda>C9.
     entity_view_bool_fset C9 i (ENTITY_FIELD_ORDER F_broken) (m_broken m))))))))))"

subsection \<open>Engineering subsystem views\<close>

text \<open>
  A view keeps the numpy slice it was given and its position; the buffer behind the slice
  is the y-vector of the owning container \<open>C\<close>.
\<close>

datatype CoolantView = CoolantView (cl_array: slice) (cl_n: int)

datatype ComponentView = ComponentView (cv_array: slice) (cv_n: int)

datatype RadiatorView = RadiatorView (rv_array: slice) (rv_n: int)

definition CoolantView_coolant_temp :: "PhysicsState \<Rightarrow> CoolantView \<Rightarrow> error + real" where
  "CoolantView_coolant_temp C v =
     np_getitem (ps_array_rep C) (cl_array v) (cl_n v * int N_COOLANT_FIELDS + 0)"








definition ComponentView_attached_to_coolant_loop :: "PhysicsState \<Rightarrow> ComponentView \<Rightarrow> error + int" where
  "ComponentView_attached_to_coolant_loop C v =
     bind_err (np_getitem (ps_array_rep C) (cv_array v) (cv_n v * int N_COMPONENT_FIELDS + 5))
       (\<lambda>x. Inr (py_int x))"

definition ComponentView_set_attached_to_coolant_loop ::
    "PhysicsState \<Rightarrow> ComponentView \<Rightarrow> int \<Rightarrow> error + PhysicsState" where
  "ComponentView_set_attached_to_coolant_loop C v val =
     bind_err (np_setitem (ps_array_rep C) (cv_array v) (cv_n v * int N_COMPONENT_FIELDS + 5)
                 (of_int val))
       (\<lambda>buf. Inr (C\<lparr>ps_array_rep := buf\<rparr>))"

definition RadiatorView_attached_to_coolant_loop :: "PhysicsState \<Rightarrow> RadiatorView \<Rightarrow> error + int" where
  "RadiatorView_attached_to_coolant_loop C v =
     bind_err (np_getitem (ps_array_rep C) (rv_array v) (rv_n v * int N_RADIATOR_FIELDS + 0))
       (\<lambda>x. Inr (py_int x))"

definition RadiatorView_set_attached_to_coolant_loop ::
    "PhysicsState \<Rightarrow> RadiatorView \<Rightarrow> int \<Rightarrow> error + PhysicsState" where
  "RadiatorView_set_attached_to_coolant_loop C v val =
     bind_err (np_setitem (ps_array_rep C) (rv_array v) (rv_n v * int N_RADIATOR_FIELDS + 0)
                 (of_int val))
       (\<lambda>buf. Inr (C\<lparr>ps_array_rep := buf\<rparr>))"


subsection \<open>Indexing collections of the engineering state\<close>

text \<open>
  The three \<^verbatim>\<open>__getitem__\<close> methods: a name is looked up in the name table (ValueError
  when absent), an integer is only compared with the collection's size from above.
\<close>

definition ComponentList_getitem :: "strings \<Rightarrow> PhysicsState \<Rightarrow> key \<Rightarrow> error + ComponentView" where
  "ComponentList_getitem P C k =
     bind_err
       (case k of
          Name s \<Rightarrow> (case list_index (COMPONENT_NAMES P) s of
                       None \<Rightarrow> Inl ValueError | Some i \<Rightarrow> Inr (int i))
        | Pos i \<Rightarrow> if i \<ge> int (N_COMPONENTS P) then Inl IndexError else Inr i)
       (\<lambda>i. Inr (ComponentView
                   (np_slice (eng_array (ps_engineering C)) COMPONENT_START_INDEX
                      (COOLANT_START_INDEX P)) i))"

definition CoolantLoopList_getitem :: "strings \<Rightarrow> PhysicsState \<Rightarrow> key \<Rightarrow> error + CoolantView" where
  "CoolantLoopList_getitem P C k =
     bind_err
       (case k of
          Name s \<Rightarrow> (case list_index (COOLANT_LOOP_NAMES P) s of
                       None \<Rightarrow> Inl ValueError | Some i \<Rightarrow> Inr (int i))
        | Pos i \<Rightarrow> if i \<ge> int (N_COOLANT_LOOPS P) then Inl IndexError else Inr i)
       (\<lambda>i. Inr (CoolantView
                   (np_slice (eng_array (ps_engineering C)) (COOLANT_START_INDEX P)
                      (RADIATOR_START_INDEX P)) i))"

definition RadiatorList_getitem :: "strings \<Rightarrow> PhysicsState \<Rightarrow> key \<Rightarrow> error + RadiatorView" where
  "RadiatorList_getitem P C k =
     bind_err
       (case k of
          Name s \<Rightarrow> (case list_index (RADIATOR_NAMES P) s of
                       None \<Rightarrow> Inl ValueError | Some i \<Rightarrow> Inr (int i))
        | Pos i \<Rightarrow> if i \<ge> int (N_RADIATORS P) then Inl IndexError else Inr i)
       (\<lambda>i. Inr (RadiatorView
                   (np_slice_from (eng_array (ps_engineering C)) (RADIATOR_START_INDEX P)) i))"

text \<open>\<^verbatim>\<open>get_coolant_loop\<close>: the stored reference minus one, looked up in the parent's list.\<close>

definition ComponentView_get_coolant_loop ::
    "strings \<Rightarrow> PhysicsState \<Rightarrow> ComponentView \<Rightarrow> error + CoolantView" where
  "ComponentView_get_coolant_loop P C v =
     bind_err (ComponentView_attached_to_coolant_loop C v)
       (\<lambda>k. CoolantLoopList_getitem P C (Pos (k - 1)))"

definition RadiatorView_get_coolant_loop ::
    "strings \<Rightarrow> PhysicsState \<Rightarrow> RadiatorView \<Rightarrow> error + CoolantView" where
  "RadiatorView_get_coolant_loop P C v =
     bind_err (RadiatorView_attached_to_coolant_loop C v)
       (\<lambda>k. CoolantLoopList_getitem P C (Pos (k - 1)))"

text \<open>
  The lists define \<^verbatim>\<open>__getitem__\<close> only, so a \<^verbatim>\<open>for\<close> loop over one asks for positions
  0, 1, 2, ... until IndexError: it yields the views of the positions below the size.
\<close>

definition ComponentList_iter :: "strings \<Rightarrow> PhysicsState \<Rightarrow> ComponentView list" where
  "ComponentList_iter P C =
     map (\<lambda>i. ComponentView
                (np_slice (eng_array (ps_engineering C)) COMPONENT_START_INDEX
                   (COOLANT_START_INDEX P)) (int i)) [0..<N_COMPONENTS P]"

definition CoolantLoopList_iter :: "strings \<Rightarrow> PhysicsState \<Rightarrow> CoolantView list" where
  "CoolantLoopList_iter P C =
     map (\<lambda>i. CoolantView
                (np_slice (eng_array (ps_engineering C)) (COOLANT_START_INDEX P)
                   (RADIATOR_START_INDEX P)) (int i)) [0..<N_COOLANT_LOOPS P]"

definition RadiatorList_iter :: "strings \<Rightarrow> PhysicsState \<Rightarrow> RadiatorView list" where
  "RadiatorList_iter P C =
     map (\<lambda>i. RadiatorView
                (np_slice_from (eng_array (ps_engineering C)) (RADIATOR_START_INDEX P)) (int i))
       [0..<N_RADIATORS P]"

subsection \<open>Engineering state: construction and round trip\<close>

text \<open>
  Modelled from the spec: the descriptors' field orders (Component: connected,
  temperature, resistance, voltage, current, attached\_to\_coolant\_loop; CoolantLoop:
  coolant\_temp, primary\_pump\_on, secondary\_pump\_on; Radiator:
  attached\_to\_coolant\_loop, functioning), which are the offsets the views read.  The
  values the populating loop writes, in the order of its write marker.
\<close>

definition component_values :: "Component_proto \<Rightarrow> real list" where
  "component_values c =
     [of_bool (c_connected c), c_temperature c, c_resistance c, c_voltage c, c_current c,
      of_int (c_attached_to_coolant_loop c)]"

definition coolant_values :: "CoolantLoop_proto \<Rightarrow> real list" where
  "coolant_values l =
     [l_coolant_temp l, of_bool (l_primary_pump_on l), of_bool (l_secondary_pump_on l)]"

definition radiator_values :: "Radiator_proto \<Rightarrow> real list" where
  "radiator_values r = [of_int (r_attached_to_coolant_loop r), of_bool (r_functioning r)]"

definition engineering_values :: "EngineeringState_proto \<Rightarrow> real list" where
  "engineering_values p =
     concat (map component_values (components p))
     @ concat (map coolant_values (coolant_loops p))
     @ concat (map radiator_values (radiators p))"

definition EngineeringState_init ::
    "strings \<Rightarrow> real list \<Rightarrow> slice \<Rightarrow> EngineeringState_proto \<Rightarrow> bool
       \<Rightarrow> error + (EngineeringState \<times> real list)" where
  "EngineeringState_init P buf array_rep proto_state populate_array =
     (if length (components proto_state) \<noteq> N_COMPONENTS P then Inl AssertionError
      else if length (coolant_loops proto_state) \<noteq> N_COOLANT_LOOPS P then Inl AssertionError
      else if length (radiators proto_state) \<noteq> N_RADIATORS P then Inl AssertionError
      else if populate_array
        then bind_err
               (fold_err (\<lambda>(write_marker, v) b. np_setitem b array_rep (int write_marker) v)
                  (enumerate 0 (engineering_values proto_state)) buf)
               (\<lambda>buf'. Inr (\<lparr>eng_array = array_rep\<rparr>, buf'))
        else Inr (\<lparr>eng_array = array_rep\<rparr>, buf))"






subsection \<open>Physics state container\<close>

text \<open>\<^verbatim>\<open>_y_component\<close>: the column of one field, a slice of the y-vector.\<close>

definition y_component :: "PhysicsState \<Rightarrow> mutable_field \<Rightarrow> slice" where
  "y_component C field_name =
     np_slice (np_whole (ps_array_rep C))
       (int (ENTITY_FIELD_ORDER field_name * ps_n C))
       (int ((ENTITY_FIELD_ORDER field_name + 1) * ps_n C))"

text \<open>
  The value the cold path stores for one field of one entity: a float as it is, the
  broken flag as 0 or 1, and \<open>landed_on\<close> as the index of the name.
\<close>

definition proto_value :: "string list \<Rightarrow> mutable_field \<Rightarrow> Entity_proto \<Rightarrow> error + real" where
  "proto_value names field_name entity =
     (case field_name of
        F_x \<Rightarrow> Inr (e_x entity)
      | F_y \<Rightarrow> Inr (e_y entity)
      | F_vx \<Rightarrow> Inr (e_vx entity)
      | F_vy \<Rightarrow> Inr (e_vy entity)
      | F_heading \<Rightarrow> Inr (e_heading entity)
      | F_spin \<Rightarrow> Inr (e_spin entity)
      | F_fuel \<Rightarrow> Inr (e_fuel entity)
      | F_throttle \<Rightarrow> Inr (e_throttle entity)
      | F_landed_on \<Rightarrow> bind_err (name_to_index names (e_landed_on entity)) (\<lambda>i. Inr (of_int i))
      | F_broken \<Rightarrow> Inr (of_bool (e_broken entity)))"

text \<open>The inner loop of the cold path, over the entities, for one field.\<close>

definition populate_field ::
    "string list \<Rightarrow> nat \<Rightarrow> Entity_proto list \<Rightarrow> mutable_field \<Rightarrow> real list \<Rightarrow> error + real list" where
  "populate_field names n es field_name buf =
     fold_err (\<lambda>(entity_index, entity) b.
         bind_err (proto_value names field_name entity) (\<lambda>v.
           np_setitem b (np_whole b)
             (int n * int (ENTITY_FIELD_ORDER field_name) + int entity_index) v))
       (enumerate 0 es) buf"

text \<open>The outer loop, over \<^verbatim>\<open>_ENTITY_FIELD_ORDER.items()\<close>.\<close>

definition populate_entities ::
    "string list \<Rightarrow> nat \<Rightarrow> Entity_proto list \<Rightarrow> real list \<Rightarrow> error + real list" where
  "populate_entities names n es buf =
     fold_err (populate_field names n es) PER_ENTITY_MUTABLE_FIELDS buf"

definition expected_size :: "strings \<Rightarrow> nat \<Rightarrow> nat" where
  "expected_size P n_entities =
     n_entities * length PER_ENTITY_MUTABLE_FIELDS
     + N_SINGULAR_ELEMENTS
     + N_ENGINEERING_FIELDS P"

text \<open>
  The branch \<^verbatim>\<open>y is None\<close> of \<^verbatim>\<open>__init__\<close>: it yields the retained snapshot, the
  y-vector and the engineering state.
\<close>

definition init_cold ::
    "strings \<Rightarrow> (nat \<Rightarrow> real) \<Rightarrow> PhysicalState_proto
       \<Rightarrow> error + (PhysicalState_proto \<times> real list \<times> EngineeringState)" where
  "init_cold P junk proto_state =
     (let n = length (entities proto_state);
          names = map e_name (entities proto_state)
      in
      bind_err (populate_entities names n (entities proto_state)
                  (np_empty junk (expected_size P (length (entities proto_state))))) (\<lambda>b1.
      bind_err (np_setitem b1 (np_whole b1) (SRB_TIME_INDEX P) (srb_time proto_state)) (\<lambda>b2.
      bind_err (np_setitem b2 (np_whole b2) (TIME_ACC_INDEX P) (time_acc proto_state)) (\<lambda>b3.
      bind_err (EngineeringState_init P b3
                  (np_slice_from (np_whole b3) (ENGINEERING_START_INDEX P))
                  (engineering proto_state) True) (\<lambda>(eng, b4).
      Inr (proto_state, b4, eng))))))"

text \<open>
  The branch where a y-vector is given: \<^verbatim>\<open>astype\<close> copies it, the two singular
  scalars are read from it into the snapshot.
\<close>

definition init_hot ::
    "strings \<Rightarrow> real list \<Rightarrow> PhysicalState_proto
       \<Rightarrow> error + (PhysicalState_proto \<times> real list \<times> EngineeringState)" where
  "init_hot P y proto_state =
     bind_err (np_getitem y (np_whole y) (SRB_TIME_INDEX P)) (\<lambda>s.
     bind_err (np_getitem y (np_whole y) (TIME_ACC_INDEX P)) (\<lambda>t.
     bind_err (EngineeringState_init P y
                 (np_slice_from (np_whole y) (ENGINEERING_START_INDEX P))
                 (engineering proto_state) False) (\<lambda>(eng, b).
     Inr (proto_state\<lparr>srb_time := s, time_acc := t\<rparr>, b, eng))))"

text \<open>
  \<^verbatim>\<open>PhysicsState.__init__\<close>.  The argument \<open>y\<close> is a one-dimensional array or \<open>None\<close>, so
  the assertion on the shape holds by typing; the assertion on the size is the check
  below, and the headings are normalised after it.
\<close>

definition PhysicsState_init ::
    "strings \<Rightarrow> (nat \<Rightarrow> real) \<Rightarrow> real list option \<Rightarrow> PhysicalState_proto
       \<Rightarrow> error + PhysicsState" where
  "PhysicsState_init P junk y proto_state =
     bind_err
       (case y of None \<Rightarrow> init_cold P junk proto_state
        | Some yv \<Rightarrow> init_hot P yv proto_state)
       (\<lambda>(ps, buf, eng).
          let n_entities = length (entities proto_state);
              self = \<lparr>ps_proto_state = ps, ps_n = length (entities proto_state),
                      ps_entity_names = map e_name (entities proto_state),
                      ps_array_rep = buf, ps_engineering = eng,
                      ps_entities_with_atmospheres = None\<rparr>
          in if length buf \<noteq> expected_size P n_entities then Inl AssertionError
             else Inr (self\<lparr>ps_array_rep :=
                              np_mod_out buf (y_component self F_heading) TWO_PI\<rparr>))"



text \<open>\<^verbatim>\<open>__getitem__\<close>: a name is looked up in the name table, an integer is taken as it is.\<close>

definition PhysicsState_getitem :: "heap \<Rightarrow> addr \<Rightarrow> key \<Rightarrow> error + Entity" where
  "PhysicsState_getitem h self k =
     bind_err
       (case k of
          Name s \<Rightarrow> (case list_index (ps_entity_names (h self)) s of
                       None \<Rightarrow> Inl ValueError | Some i \<Rightarrow> Inr (int i))
        | Pos i \<Rightarrow> Inr i)
       (\<lambda>i. Inr (EntityView self i))"

text \<open>Reading the ten fields of an \<^verbatim>\<open>Entity\<close>, a wrapper or a view.\<close>

definition Entity_fields :: "heap \<Rightarrow> Entity \<Rightarrow> error + mutable_fields" where
  "Entity_fields h val =
     (case val of
        Entity p \<Rightarrow> Inr (proto_fields p)
      | EntityView a i \<Rightarrow> read_view_fields (h a) i)"

text \<open>
  \<^verbatim>\<open>__setitem__\<close>: nothing happens when the value is a view created by this container;
  otherwise the ten fields of the value are read and assigned through the view of the
  row.
\<close>

definition PhysicsState_setitem :: "heap \<Rightarrow> addr \<Rightarrow> key \<Rightarrow> Entity \<Rightarrow> error + heap" where
  "PhysicsState_setitem h self k val =
     (if (case val of EntityView a j \<Rightarrow> a = self | Entity p \<Rightarrow> False) then Inr h
      else
        bind_err
          (case k of
             Name s \<Rightarrow> (case list_index (ps_entity_names (h self)) s of
                          None \<Rightarrow> Inl ValueError | Some i \<Rightarrow> Inr (int i))
           | Pos i \<Rightarrow> Inr i) (\<lambda>i.
        bind_err (Entity_fields h val) (\<lambda>m.
        bind_err (write_view_fields (h self) i m) (\<lambda>C.
        Inr (h(self := C))))))"

text \<open>The column accessor \<^verbatim>\<open>X\<close>, and reading one position of a column.\<close>

definition PhysicsState_X :: "PhysicsState \<Rightarrow> slice" where
  "PhysicsState_X C = y_component C F_x"

definition column_getitem :: "PhysicsState \<Rightarrow> slice \<Rightarrow> int \<Rightarrow> error + real" where
  "column_getitem C col i = np_getitem (ps_array_rep C) col i"

text \<open>\<^verbatim>\<open>craft\<close>: the name of the controlled craft, or \<open>None\<close>.\<close>

definition craft :: "PhysicsState \<Rightarrow> error + string option" where
  "craft C =
     (if HABITAT \<notin> set (ps_entity_names C) \<and> AYSE \<notin> set (ps_entity_names C) then Inr None
      else if AYSE \<notin> set (ps_entity_names C) then Inr (Some HABITAT)
      else
        bind_err (name_to_index (ps_entity_names C) HABITAT) (\<lambda>hab_index.
        bind_err (name_to_index (ps_entity_names C) AYSE) (\<lambda>ayse_index.
        bind_err (np_getitem (ps_array_rep C) (y_component C F_landed_on) hab_index) (\<lambda>v.
        if v = of_int ayse_index then Inr (Some AYSE) else Inr (Some HABITAT)))))"

text \<open>
  What \<^verbatim>\<open>__init__\<close> establishes and the setters keep: the y-vector has the asserted
  size, the name table has one name per row, and the engineering state looks at the
  tail of the y-vector.
\<close>

definition PhysicsState_inv :: "strings \<Rightarrow> PhysicsState \<Rightarrow> bool" where
  "PhysicsState_inv P C \<longleftrightarrow>
     length (ps_array_rep C) = expected_size P (ps_n C) \<and>
     length (ps_entity_names C) = ps_n C \<and>
     eng_array (ps_engineering C) =
       np_slice_from (np_whole (ps_array_rep C)) (ENGINEERING_START_INDEX P)"



section \<open>A concrete system\<close>

text \<open>
  Two components, two coolant loops and two radiators; the entities of the
  craft-resolution scenario, the Habitat docked with AYSE.
\<close>

definition demo_strings :: strings where
  "demo_strings =
     \<lparr>COMPONENT_NAMES = [''COMP1'', ''COMP2''],
      COOLANT_LOOP_NAMES = [''LP1'', ''LP2''],
      RADIATOR_NAMES = [''RAD1'', ''RAD2'']\<rparr>"

definition demo_entity :: "string \<Rightarrow> string \<Rightarrow> Entity_proto" where
  "demo_entity nm lo =
     \<lparr>e_name = nm, e_x = 1, e_y = 2, e_vx = 3, e_vy = 4, e_r = 5, e_mass = 6, e_heading = 0,
      e_spin = 0, e_fuel = 10, e_throttle = 0, e_landed_on = lo, e_broken = False,
      e_artificial = True, e_atmosphere_thickness = 0, e_atmosphere_scaling = 0\<rparr>"

definition demo_engineering :: EngineeringState_proto where
  "demo_engineering =
     \<lparr>components =
        [\<lparr>c_connected = True, c_temperature = 30, c_resistance = 1, c_voltage = 2,
          c_current = 3, c_attached_to_coolant_loop = 2\<rparr>,
         \<lparr>c_connected = False, c_temperature = 25, c_resistance = 1, c_voltage = 0,
          c_current = 0, c_attached_to_coolant_loop = 0\<rparr>],
      coolant_loops =
        [\<lparr>l_coolant_temp = 15, l_primary_pump_on = True, l_secondary_pump_on = False\<rparr>,
         \<lparr>l_coolant_temp = 20, l_primary_pump_on = False, l_secondary_pump_on = False\<rparr>],
      radiators =
        [\<lparr>r_attached_to_coolant_loop = 0, r_functioning = True\<rparr>,
         \<lparr>r_attached_to_coolant_loop = 2, r_functioning = True\<rparr>],
      master_alarm = False, radiation_alarm = False, asteroid_alarm = False,
      hab_reactor_alarm = False, ayse_reactor_alarm = False, hab_gnomes = False\<rparr>"

definition demo_snapshot_of :: "Entity_proto list \<Rightarrow> PhysicalState_proto" where
  "demo_snapshot_of es =
     \<lparr>entities = es, timestamp = 0, srb_time = 5, time_acc = 1, reference = ''Habitat'',
      target = ''AYSE'', navmode = 0, parachute_deployed = False,
      engineering = demo_engineering\<rparr>"

definition demo_snapshot :: PhysicalState_proto where
  "demo_snapshot =
     demo_snapshot_of [demo_entity ''Habitat'' ''AYSE'', demo_entity ''AYSE'' '''']"

text \<open>A snapshot whose only entity is AYSE, and one whose Habitat is landed on an
  entity that is not in the list.\<close>

definition ayse_only_snapshot :: PhysicalState_proto where
  "ayse_only_snapshot = demo_snapshot_of [demo_entity ''AYSE'' '''']"

definition stray_landing_snapshot :: PhysicalState_proto where
  "stray_landing_snapshot = demo_snapshot_of [demo_entity ''Habitat'' ''Mars'']"

text \<open>A snapshot whose Habitat has a tiny negative heading, \<open>- 2\<^sup>-\<^sup>7\<^sup>0\<close>.\<close>

definition tiny_heading_snapshot :: PhysicalState_proto where
  "tiny_heading_snapshot =
     demo_snapshot_of [(demo_entity ''Habitat'' '''')\<lparr>e_heading := - (1 / 2 ^ 70)\<rparr>]"


definition demo_junk :: "nat \<Rightarrow> real" where
  "demo_junk k = 0"

text \<open>The container a cold build makes of \<open>demo_snapshot\<close>, and a heap holding it.\<close>

definition demo_state :: PhysicsState where
  "demo_state =
     \<lparr>ps_proto_state = demo_snapshot, ps_n = 2, ps_entity_names = [''Habitat'', ''AYSE''],
      ps_array_rep =
        [1, 1, 2, 2, 3, 3, 4, 4, 0, 0, 0, 0, 10, 10, 0, 0, 1, - 1, 0, 0,
         5, 1,
         1, 30, 1, 2, 3, 2, 0, 25, 1, 0, 0, 0,
         15, 1, 0, 20, 0, 0,
         0, 1, 2, 1],
      ps_engineering = \<lparr>eng_array = \<lparr>sl_start = 22, sl_len = 22\<rparr>\<rparr>,
      ps_entities_with_atmospheres = None\<rparr>"

definition demo_heap :: heap where
  "demo_heap a = demo_state"

definition ayse_only_state :: PhysicsState where
  "ayse_only_state =
     \<lparr>ps_proto_state = ayse_only_snapshot, ps_n = 1, ps_entity_names = [''AYSE''],
      ps_array_rep =
        [1, 2, 3, 4, 0, 0, 10, 0, - 1, 0,
         5, 1,
         1, 30, 1, 2, 3, 2, 0, 25, 1, 0, 0, 0,
         15, 1, 0, 20, 0, 0,
         0, 1, 2, 1],
      ps_engineering = \<lparr>eng_array = \<lparr>sl_start = 12, sl_len = 22\<rparr>\<rparr>,
      ps_entities_with_atmospheres = None\<rparr>"

section \<open>Basic facts\<close>

lemma bind_err_Inl [simp]: "bind_err (Inl e) f = Inl e"
  by (simp add: bind_err_def)

lemma bind_err_Inr [simp]: "bind_err (Inr v) f = f v"
  by (simp add: bind_err_def)

lemma py_index_nonneg: "0 \<le> i \<Longrightarrow> i < int len \<Longrightarrow> py_index len i = Inr (nat i)"
  by (simp add: py_index_def)

lemma py_index_nat [simp]: "k < len \<Longrightarrow> py_index len (int k) = Inr k"
  by (simp add: py_index_def)

lemma list_index_None: "list_index xs v = None \<longleftrightarrow> v \<notin> set xs"
  by (induction xs) auto

lemma list_index_Some: "list_index xs v = Some i \<Longrightarrow> i < length xs \<and> xs ! i = v"
  by (induction xs arbitrary: i) (auto split: if_splits)

lemma list_index_in_set: "v \<in> set xs \<Longrightarrow> \<exists>i. list_index xs v = Some i"
  using list_index_None [of xs v] by (cases "list_index xs v") auto

lemma py_int_of_int [simp]: "py_int (of_int k) = k"
  by (simp add: py_int_def)

lemma py_bool_of_bool [simp]: "py_bool (of_bool b) = b"
  by (simp add: py_bool_def)


lemma np_mod_zero [simp]: "np_mod 0 m = 0"
  by (simp add: np_mod_def fmod_def py_int_def)






lemmas layout_defs =
  expected_size_def PER_ENTITY_MUTABLE_FIELDS_def N_SINGULAR_ELEMENTS_def N_ENGINEERING_FIELDS_def
  N_COMPONENTS_def N_COOLANT_LOOPS_def N_RADIATORS_def N_COMPONENT_FIELDS_def N_COOLANT_FIELDS_def
  N_RADIATOR_FIELDS_def SRB_TIME_INDEX_def TIME_ACC_INDEX_def ENGINEERING_START_INDEX_def
  COMPONENT_START_INDEX_def COOLANT_START_INDEX_def RADIATOR_START_INDEX_def NO_INDEX_def

lemmas np_defs =
  np_empty_def np_setitem_def np_getitem_def np_whole_def np_slice_def np_slice_from_def
  py_index_def py_clamp_def py_getitem_def py_int_def py_bool_def

lemmas init_defs =
  PhysicsState_init_def init_cold_def init_hot_def populate_entities_def populate_field_def
  proto_value_def name_to_index_def EngineeringState_init_def engineering_values_def
  component_values_def coolant_values_def radiator_values_def y_component_def np_mod_out_def
  enumerate_eq_zip upt_conv_Cons


lemmas demo_defs =
  demo_strings_def demo_entity_def demo_engineering_def demo_snapshot_of_def demo_snapshot_def
  ayse_only_snapshot_def stray_landing_snapshot_def tiny_heading_snapshot_def demo_junk_def

section \<open>The concrete system is what the constructor builds\<close>

lemma demo_state_built:
  "PhysicsState_init demo_strings demo_junk None demo_snapshot = Inr demo_state"
  by (simp add: demo_state_def demo_defs init_defs np_defs layout_defs Let_def)

lemma ayse_only_state_built:
  "PhysicsState_init demo_strings demo_junk None ayse_only_snapshot = Inr ayse_only_state"
  by (simp add: ayse_only_state_def demo_defs init_defs np_defs layout_defs Let_def)

lemma demo_state_inv: "PhysicsState_inv demo_strings demo_state"
  by (simp add: PhysicsState_inv_def demo_state_def demo_defs np_defs layout_defs)

text \<open>A y-vector of the right size is accepted: the hot path rebuilds the same container.\<close>

lemma demo_state_rebuilt:
  "PhysicsState_init demo_strings demo_junk (Some (ps_array_rep demo_state)) demo_snapshot
     = Inr demo_state"
  by (simp add: demo_state_def demo_defs init_defs np_defs layout_defs Let_def)

section \<open>Whole-row assignment\<close>

text \<open>
  Claim C8.  For every container and every row index \<open>i\<close>, the self-assignment
  \<^verbatim>\<open>C[i] = C[i]\<close> (the value being the view the container returns for row \<open>i\<close>) succeeds
  and leaves the whole heap, hence every field of every entity, exactly as it was.  The
  result is decided by the comparison of the view's creator with the container alone:
  it holds for every heap, also one in which reading the row would raise.
\<close>

theorem setitem_self_noop:
  "bind_err (PhysicsState_getitem h self (Pos i)) (PhysicsState_setitem h self (Pos i)) = Inr h"
  by (simp add: PhysicsState_getitem_def PhysicsState_setitem_def)

text \<open>
  Claim C10.  For every container, every key \<open>k\<close> and every view whose creator is that
  container, whatever row \<open>j\<close> the view aliases, the assignment \<^verbatim>\<open>C[k] = V\<close> returns with
  the heap unchanged: nothing is copied from row \<open>j\<close>, because the test looks at the
  creator only.
\<close>

theorem setitem_own_view_noop:
  "PhysicsState_setitem h self k (EntityView self j) = Inr h"
  by (simp add: PhysicsState_setitem_def)

section \<open>Length invariant\<close>

text \<open>
  Claim C9.  Constructing a container from a given y-vector whose length differs from
  entity count times mutable-field count, plus the two singular scalars, plus the
  engineering-field count, raises an error: no container is produced.
\<close>

theorem init_wrong_length_fails:
  "length y \<noteq> length (entities S) * length PER_ENTITY_MUTABLE_FIELDS + 2 + N_ENGINEERING_FIELDS P
   \<Longrightarrow> isl (PhysicsState_init P junk (Some y) S)"
  by (auto simp: PhysicsState_init_def init_hot_def EngineeringState_init_def bind_err_def Let_def
      expected_size_def N_SINGULAR_ELEMENTS_def
      split: sum.splits if_splits prod.splits)

theorem init_wrong_length_fails_witness:
  "length [1, 2, 3 :: real]
     \<noteq> length (entities demo_snapshot) * length PER_ENTITY_MUTABLE_FIELDS + 2
         + N_ENGINEERING_FIELDS demo_strings
   \<and> isl (PhysicsState_init demo_strings demo_junk (Some [1, 2, 3]) demo_snapshot)"
  using init_wrong_length_fails [of "[1, 2, 3]" demo_snapshot demo_strings demo_junk]
  by (simp add: demo_defs layout_defs)

section \<open>Indexing and coolant-loop references\<close>

lemma CoolantLoopList_getitem_Pos:
  "CoolantLoopList_getitem P C (Pos i) =
     (if int (N_COOLANT_LOOPS P) \<le> i then Inl IndexError
      else Inr (CoolantView (np_slice (eng_array (ps_engineering C)) (COOLANT_START_INDEX P)
                   (RADIATOR_START_INDEX P)) i))"
  by (simp add: CoolantLoopList_getitem_def)

lemma ComponentList_getitem_Pos:
  "ComponentList_getitem P C (Pos i) =
     (if int (N_COMPONENTS P) \<le> i then Inl IndexError
      else Inr (ComponentView (np_slice (eng_array (ps_engineering C)) COMPONENT_START_INDEX
                   (COOLANT_START_INDEX P)) i))"
  by (simp add: ComponentList_getitem_def)

lemma RadiatorList_getitem_Pos:
  "RadiatorList_getitem P C (Pos i) =
     (if int (N_RADIATORS P) \<le> i then Inl IndexError
      else Inr (RadiatorView (np_slice_from (eng_array (ps_engineering C))
                   (RADIATOR_START_INDEX P)) i))"
  by (simp add: RadiatorList_getitem_def)

text \<open>
  Claim C4: lookup by an integer outside the bounds of a collection (the entities of a
  container, the Components, the CoolantLoops, the Radiators) fails with an index error,
  and no view is returned, negative integers included.  The code does not do this.
  \<^verbatim>\<open>PhysicsState.__getitem__\<close> makes no bounds check at all, and the three list classes
  test \<^verbatim>\<open>index >= size\<close> only, so a negative integer passes.  In the container of two
  entities and two components, \<^verbatim>\<open>C[7]\<close> and \<^verbatim>\<open>C[-1]\<close> return views; through them
  \<^verbatim>\<open>C[7].x\<close> reads cell 7 of the y-vector, the \<open>vy\<close> of the second entity, and
  \<^verbatim>\<open>C[-1].x\<close> reads the last cell, a field of the second radiator.  \<^verbatim>\<open>components[-1]\<close>,
  \<^verbatim>\<open>coolant_loops[-1]\<close> and \<^verbatim>\<open>radiators[-1]\<close> return views as well.
\<close>

theorem getitem_out_of_range_returns_view:
  "PhysicsState_getitem demo_heap 0 (Pos 7) = Inr (EntityView 0 7)
   \<and> view_get_float demo_heap 0 7 F_x = Inr 4
   \<and> PhysicsState_getitem demo_heap 0 (Pos (- 1)) = Inr (EntityView 0 (- 1))
   \<and> py_index (length (ps_array_rep demo_state))
        (entity_view_cell demo_state (- 1) (ENTITY_FIELD_ORDER F_x)) = Inr 43
   \<and> ComponentList_getitem demo_strings demo_state (Pos (- 1))
       = Inr (ComponentView \<lparr>sl_start = 22, sl_len = 12\<rparr> (- 1))
   \<and> CoolantLoopList_getitem demo_strings demo_state (Pos (- 1))
       = Inr (CoolantView \<lparr>sl_start = 34, sl_len = 6\<rparr> (- 1))
   \<and> RadiatorList_getitem demo_strings demo_state (Pos (- 1))
       = Inr (RadiatorView \<lparr>sl_start = 40, sl_len = 4\<rparr> (- 1))"
  by (simp add: PhysicsState_getitem_def ComponentList_getitem_Pos CoolantLoopList_getitem_Pos
      RadiatorList_getitem_Pos view_get_float_def entity_view_float_fget_def
      entity_view_cell_def demo_heap_def demo_state_def demo_defs
      np_defs layout_defs)

text \<open>
  Claim C5: \<^verbatim>\<open>get_coolant_loop()\<close> on a Component or a Radiator whose stored reference
  is 0 (unattached) returns no CoolantLoop view, it fails.  The code does not do this.
  \<^verbatim>\<open>get_coolant_loop\<close> indexes the coolant loops with the reference minus one, and
  \<^verbatim>\<open>CoolantLoopList.__getitem__\<close> tests \<^verbatim>\<open>index >= size\<close> only, so \<open>-1\<close> passes.  The
  first radiator and the second component of the concrete system store the reference 0;
  \<^verbatim>\<open>get_coolant_loop()\<close> on each returns the view of position \<open>-1\<close>, through which the
  temperature of the last coolant loop, 20, is read.
\<close>

theorem get_coolant_loop_unattached_returns_view:
  "RadiatorList_getitem demo_strings demo_state (Pos 0)
     = Inr (RadiatorView \<lparr>sl_start = 40, sl_len = 4\<rparr> 0)
   \<and> RadiatorView_attached_to_coolant_loop demo_state (RadiatorView \<lparr>sl_start = 40, sl_len = 4\<rparr> 0)
     = Inr 0
   \<and> RadiatorView_get_coolant_loop demo_strings demo_state
       (RadiatorView \<lparr>sl_start = 40, sl_len = 4\<rparr> 0)
     = Inr (CoolantView \<lparr>sl_start = 34, sl_len = 6\<rparr> (- 1))
   \<and> ComponentView_attached_to_coolant_loop demo_state
       (ComponentView \<lparr>sl_start = 22, sl_len = 12\<rparr> 1) = Inr 0
   \<and> ComponentView_get_coolant_loop demo_strings demo_state
       (ComponentView \<lparr>sl_start = 22, sl_len = 12\<rparr> 1)
     = Inr (CoolantView \<lparr>sl_start = 34, sl_len = 6\<rparr> (- 1))
   \<and> CoolantView_coolant_temp demo_state (CoolantView \<lparr>sl_start = 34, sl_len = 6\<rparr> (- 1)) = Inr 20"
  by (simp add: RadiatorList_getitem_Pos RadiatorView_get_coolant_loop_def
      ComponentView_get_coolant_loop_def RadiatorView_attached_to_coolant_loop_def
      ComponentView_attached_to_coolant_loop_def CoolantLoopList_getitem_Pos
      CoolantView_coolant_temp_def demo_state_def demo_defs np_defs layout_defs)

text \<open>
  Claim C6.  On a Radiator or a Component whose stored reference reads \<open>k\<close> with
  \<open>1 \<le> k \<le>\<close> number of coolant loops, \<^verbatim>\<open>get_coolant_loop()\<close> returns the CoolantLoop
  view of position \<open>k - 1\<close>, the one \<^verbatim>\<open>coolant_loops[k - 1]\<close> returns; a stored 2
  resolves to position 1.
\<close>

theorem get_coolant_loop_attached:
  assumes "1 \<le> k" and "k \<le> int (N_COOLANT_LOOPS P)"
  shows "(RadiatorView_attached_to_coolant_loop C rv = Inr k \<longrightarrow>
            RadiatorView_get_coolant_loop P C rv =
              Inr (CoolantView (np_slice (eng_array (ps_engineering C)) (COOLANT_START_INDEX P)
                     (RADIATOR_START_INDEX P)) (k - 1))
            \<and> RadiatorView_get_coolant_loop P C rv = CoolantLoopList_getitem P C (Pos (k - 1)))
       \<and> (ComponentView_attached_to_coolant_loop C cv = Inr k \<longrightarrow>
            ComponentView_get_coolant_loop P C cv =
              Inr (CoolantView (np_slice (eng_array (ps_engineering C)) (COOLANT_START_INDEX P)
                     (RADIATOR_START_INDEX P)) (k - 1))
            \<and> ComponentView_get_coolant_loop P C cv = CoolantLoopList_getitem P C (Pos (k - 1)))"
  using assms
  by (simp add: RadiatorView_get_coolant_loop_def ComponentView_get_coolant_loop_def
      CoolantLoopList_getitem_Pos)

theorem get_coolant_loop_attached_witness:
  "(1::int) \<le> 2 \<and> 2 \<le> int (N_COOLANT_LOOPS demo_strings)
   \<and> RadiatorView_attached_to_coolant_loop demo_state (RadiatorView \<lparr>sl_start = 40, sl_len = 4\<rparr> 1)
     = Inr 2
   \<and> RadiatorView_get_coolant_loop demo_strings demo_state
       (RadiatorView \<lparr>sl_start = 40, sl_len = 4\<rparr> 1)
     = Inr (CoolantView \<lparr>sl_start = 34, sl_len = 6\<rparr> 1)
   \<and> ComponentView_attached_to_coolant_loop demo_state
       (ComponentView \<lparr>sl_start = 22, sl_len = 12\<rparr> 0) = Inr 2
   \<and> ComponentView_get_coolant_loop demo_strings demo_state
       (ComponentView \<lparr>sl_start = 22, sl_len = 12\<rparr> 0)
     = Inr (CoolantView \<lparr>sl_start = 34, sl_len = 6\<rparr> 1)"
proof -
  have n: "2 \<le> int (N_COOLANT_LOOPS demo_strings)"
    by (simp add: demo_defs layout_defs)
  have r: "RadiatorView_attached_to_coolant_loop demo_state
             (RadiatorView \<lparr>sl_start = 40, sl_len = 4\<rparr> 1) = Inr 2"
    by (simp add: RadiatorView_attached_to_coolant_loop_def demo_state_def np_defs layout_defs)
  have c: "ComponentView_attached_to_coolant_loop demo_state
             (ComponentView \<lparr>sl_start = 22, sl_len = 12\<rparr> 0) = Inr 2"
    by (simp add: ComponentView_attached_to_coolant_loop_def demo_state_def np_defs layout_defs)
  have s: "np_slice (eng_array (ps_engineering demo_state)) (COOLANT_START_INDEX demo_strings)
             (RADIATOR_START_INDEX demo_strings) = \<lparr>sl_start = 34, sl_len = 6\<rparr>"
    by (simp add: demo_state_def demo_defs np_defs layout_defs)
  show ?thesis
    using n r c s
      get_coolant_loop_attached [of 2 demo_strings demo_state
        "RadiatorView \<lparr>sl_start = 40, sl_len = 4\<rparr> 1"
        "ComponentView \<lparr>sl_start = 22, sl_len = 12\<rparr> 0"]
    by simp
qed

section \<open>Cells of the entity block\<close>

lemma py_int_minus_one [simp]: "py_int (- 1) = - 1"
  using py_int_of_int [of "- 1"] by simp

lemma py_int_of_nat [simp]: "py_int (of_nat k) = int k"
  using py_int_of_int [of "int k"] by simp

lemma ENTITY_FIELD_ORDER_lt: "ENTITY_FIELD_ORDER f < 10"
  by (cases f) simp_all

lemma inv_length: "PhysicsState_inv P C \<Longrightarrow> 10 * ps_n C \<le> length (ps_array_rep C)"
  by (simp add: PhysicsState_inv_def expected_size_def PER_ENTITY_MUTABLE_FIELDS_def)

lemma cell_in_range:
  fixes n k field_n len :: nat
  assumes "10 * n \<le> len" and "k < n" and "field_n < 10"
  shows "n * field_n + k < len"
proof -
  have "n * field_n + k < n * field_n + n"
    using assms(2) by simp
  also have "\<dots> = n * Suc field_n"
    by simp
  also have "\<dots> \<le> n * 10"
    using assms(3) by (intro mult_le_mono2) simp
  finally show ?thesis
    using assms(1) by (simp add: mult.commute)
qed

lemma entity_view_cell_index:
  assumes "PhysicsState_inv P C" and "0 \<le> i" and "i < int (ps_n C)" and "field_n < 10"
  shows "py_index (length (ps_array_rep C)) (entity_view_cell C i field_n)
           = Inr (ps_n C * field_n + nat i)"
proof -
  have "ps_n C * field_n + nat i < length (ps_array_rep C)"
    using assms inv_length [OF assms(1)] by (intro cell_in_range) auto
  moreover have "entity_view_cell C i field_n = int (ps_n C * field_n + nat i)"
    using assms(2) by (simp add: entity_view_cell_def)
  ultimately show ?thesis
    by (simp only: py_index_nat)
qed

lemma entity_view_float_fget_cell:
  assumes "PhysicsState_inv P C" and "0 \<le> i" and "i < int (ps_n C)" and "field_n < 10"
  shows "entity_view_float_fget C i field_n = Inr (ps_array_rep C ! (ps_n C * field_n + nat i))"
  using entity_view_cell_index [OF assms]
  by (simp add: entity_view_float_fget_def np_getitem_def np_whole_def)

lemma entity_view_float_fset_cell:
  assumes "PhysicsState_inv P C" and "0 \<le> i" and "i < int (ps_n C)" and "field_n < 10"
  shows "entity_view_float_fset C i field_n v
           = Inr (C\<lparr>ps_array_rep := (ps_array_rep C)[ps_n C * field_n + nat i := v]\<rparr>)"
  using entity_view_cell_index [OF assms]
  by (simp add: entity_view_float_fset_def np_setitem_def np_whole_def)

lemma entity_view_landed_on_fset_cell:
  assumes "PhysicsState_inv P C" and "0 \<le> i" and "i < int (ps_n C)" and "field_n < 10"
    and "name_to_index (ps_entity_names C) val = Inr k"
  shows "entity_view_landed_on_fset C i field_n val
           = Inr (C\<lparr>ps_array_rep := (ps_array_rep C)[ps_n C * field_n + nat i := of_int k]\<rparr>)"
  using entity_view_cell_index [OF assms(1-4)] assms(5)
  by (simp add: entity_view_landed_on_fset_def np_setitem_def np_whole_def)

lemma inv_update:
  "PhysicsState_inv P C \<Longrightarrow> PhysicsState_inv P (C\<lparr>ps_array_rep := (ps_array_rep C)[k := v]\<rparr>)"
  by (simp add: PhysicsState_inv_def np_whole_def)

lemma py_clamp_nat [simp]: "py_clamp len (int k) = min len k"
  by (simp add: py_clamp_def)

lemma np_slice_nat:
  "a \<le> b \<Longrightarrow> b \<le> sl_len s \<Longrightarrow>
   np_slice s (int a) (int b) = \<lparr>sl_start = sl_start s + a, sl_len = b - a\<rparr>"
  by (simp add: np_slice_def Let_def)

lemma y_component_slice:
  assumes "PhysicsState_inv P C"
  shows "y_component C f = \<lparr>sl_start = ENTITY_FIELD_ORDER f * ps_n C, sl_len = ps_n C\<rparr>"
proof -
  let ?a = "ENTITY_FIELD_ORDER f * ps_n C"
  let ?b = "(ENTITY_FIELD_ORDER f + 1) * ps_n C"
  have "?b \<le> 10 * ps_n C"
    using ENTITY_FIELD_ORDER_lt [of f] by (intro mult_le_mono1) simp
  then have "?b \<le> length (ps_array_rep C)"
    using inv_length [OF assms] by (rule le_trans)
  then have b: "?b \<le> sl_len (np_whole (ps_array_rep C))"
    by (simp only: np_whole_def slice.simps)
  have a: "?a \<le> ?b"
    by simp
  have "y_component C f = np_slice (np_whole (ps_array_rep C)) (int ?a) (int ?b)"
    by (simp only: y_component_def)
  also have "\<dots> = \<lparr>sl_start = sl_start (np_whole (ps_array_rep C)) + ?a, sl_len = ?b - ?a\<rparr>"
    using a b by (rule np_slice_nat)
  finally show ?thesis
    by (simp add: np_whole_def)
qed

lemma name_to_index_known:
  "list_index names name = Some k \<Longrightarrow> name \<noteq> '''' \<Longrightarrow> name_to_index names name = Inr (int k)"
  by (simp add: name_to_index_def)

lemma list_index_notin: "v \<notin> set xs \<Longrightarrow> list_index xs v = None"
  by (simp add: list_index_None)

lemma name_to_index_unknown:
  "name \<notin> set names \<Longrightarrow> name \<noteq> '''' \<Longrightarrow> name_to_index names name = Inl NoEntityError"
  by (simp add: name_to_index_def list_index_notin)

lemma name_to_index_empty: "name_to_index names '''' = Inr (- 1)"
  by (simp add: name_to_index_def NO_INDEX_def)

lemma py_index_lt: "py_index len i = Inr c \<Longrightarrow> c < len"
  by (auto simp: py_index_def Let_def split: if_splits)

lemma landed_on_fget_after_fset:
  assumes cell: "py_index (length (ps_array_rep C))
                   (entity_view_cell C i (ENTITY_FIELD_ORDER F_landed_on)) = Inr c"
    and name: "name \<in> set (ps_entity_names C) \<or> name = ''''"
  shows "bind_err (entity_view_landed_on_fset C i (ENTITY_FIELD_ORDER F_landed_on) name)
           (\<lambda>C'. entity_view_landed_on_fget C' i (ENTITY_FIELD_ORDER F_landed_on)) = Inr name"
proof -
  let ?buf = "ps_array_rep C"
  have len: "c < length ?buf"
    using cell by (rule py_index_lt)
  have idx: "py_index (length (?buf[c := v]))
               (entity_view_cell (C\<lparr>ps_array_rep := ?buf[c := v]\<rparr>) i
                  (ENTITY_FIELD_ORDER F_landed_on)) = Inr c" for v
    using cell by (simp add: entity_view_cell_def)
  show ?thesis
  proof (cases "name = ''''")
    case True
    then show ?thesis
      using cell idx [of "- 1"] len
      by (simp add: entity_view_landed_on_fset_def entity_view_landed_on_fget_def
          name_to_index_empty np_setitem_def np_getitem_def np_whole_def NO_INDEX_def)
  next
    case False
    with name obtain k where k: "list_index (ps_entity_names C) name = Some k"
      using list_index_in_set by fastforce
    then have kk: "k < length (ps_entity_names C)" "ps_entity_names C ! k = name"
      using list_index_Some by fastforce+
    show ?thesis
      using cell idx [of "real k"] len False k kk
      by (simp add: entity_view_landed_on_fset_def entity_view_landed_on_fget_def
          name_to_index_def np_setitem_def np_getitem_def np_whole_def NO_INDEX_def
          py_getitem_def Let_def)
  qed
qed

section \<open>Landed-on translation\<close>

text \<open>
  Claim C7.  On every view whose \<open>landed_on\<close> cell lies in the y-vector of its creator
  (the view of a valid row of a container is one): setting \<open>landed_on\<close> to a name of the
  name table and reading it back returns that name; setting it to the empty string and
  reading it back returns the empty string.  On every view, setting it to a non-empty
  name that is not in the table raises NoEntityError.
\<close>

theorem landed_on_translation:
  assumes "py_index (length (ps_array_rep (h a)))
             (entity_view_cell (h a) i (ENTITY_FIELD_ORDER F_landed_on)) = Inr c"
  shows "(name \<in> set (ps_entity_names (h a)) \<longrightarrow>
            bind_err (view_set_landed_on h a i name) (\<lambda>h'. view_get_landed_on h' a i) = Inr name)
       \<and> bind_err (view_set_landed_on h a i '''') (\<lambda>h'. view_get_landed_on h' a i) = Inr ''''
       \<and> (name \<notin> set (ps_entity_names (h a)) \<and> name \<noteq> '''' \<longrightarrow>
            view_set_landed_on h a i name = Inl NoEntityError)"
proof -
  have get: "bind_err (view_set_landed_on h a i s) (\<lambda>h'. view_get_landed_on h' a i)
               = bind_err (entity_view_landed_on_fset (h a) i (ENTITY_FIELD_ORDER F_landed_on) s)
                   (\<lambda>C'. entity_view_landed_on_fget C' i (ENTITY_FIELD_ORDER F_landed_on))" for s
    by (cases "entity_view_landed_on_fset (h a) i (ENTITY_FIELD_ORDER F_landed_on) s")
       (simp_all add: view_set_landed_on_def view_get_landed_on_def)
  have "view_set_landed_on h a i name = Inl NoEntityError"
    if "name \<notin> set (ps_entity_names (h a))" "name \<noteq> ''''"
    using that
    by (simp add: view_set_landed_on_def entity_view_landed_on_fset_def name_to_index_unknown)
  then show ?thesis
    using landed_on_fget_after_fset [OF assms, of name] landed_on_fget_after_fset [OF assms, of "''''"]
    by (simp add: get)
qed

theorem landed_on_translation_witness:
  "py_index (length (ps_array_rep (demo_heap 0)))
     (entity_view_cell (demo_heap 0) 0 (ENTITY_FIELD_ORDER F_landed_on)) = Inr 16
   \<and> ''AYSE'' \<in> set (ps_entity_names (demo_heap 0))
   \<and> bind_err (view_set_landed_on demo_heap 0 0 ''AYSE'') (\<lambda>h'. view_get_landed_on h' 0 0)
       = Inr ''AYSE''
   \<and> bind_err (view_set_landed_on demo_heap 0 0 '''') (\<lambda>h'. view_get_landed_on h' 0 0) = Inr ''''
   \<and> ''Mars'' \<notin> set (ps_entity_names (demo_heap 0)) \<and> ''Mars'' \<noteq> ''''
   \<and> view_set_landed_on demo_heap 0 0 ''Mars'' = Inl NoEntityError"
proof -
  have cell: "py_index (length (ps_array_rep (demo_heap 0)))
                (entity_view_cell (demo_heap 0) 0 (ENTITY_FIELD_ORDER F_landed_on)) = Inr 16"
    by (simp add: demo_heap_def demo_state_def entity_view_cell_def py_index_def)
  have names: "''AYSE'' \<in> set (ps_entity_names (demo_heap 0))"
    "''Mars'' \<notin> set (ps_entity_names (demo_heap 0))"
    by (simp_all add: demo_heap_def demo_state_def)
  show ?thesis
    using cell names landed_on_translation [of demo_heap 0 0 16 "''AYSE''"]
      landed_on_translation [of demo_heap 0 0 16 "''Mars''"]
    by simp
qed

section \<open>Aliasing\<close>

text \<open>
  Claim C2.  For every container and every valid row \<open>i\<close>, setting \<open>x\<close> to a value
  (7 in the claim) through the view of row \<open>i\<close> succeeds, and afterwards the column
  accessor \<open>X\<close> reads that value at position \<open>i\<close>, and the view the container returns
  for row \<open>i\<close> reads it as \<open>x\<close>.
\<close>

theorem view_mutation_visible:
  assumes "PhysicsState_inv P (h a)" and "0 \<le> i" and "i < int (ps_n (h a))"
  shows "\<exists>h'. view_set_float h a i F_x v = Inr h'
           \<and> column_getitem (h' a) (PhysicsState_X (h' a)) i = Inr v
           \<and> PhysicsState_getitem h' a (Pos i) = Inr (EntityView a i)
           \<and> view_get_float h' a i F_x = Inr v"
proof -
  let ?C = "h a"
  let ?C' = "?C\<lparr>ps_array_rep := (ps_array_rep ?C)[ps_n ?C * 0 + nat i := v]\<rparr>"
  let ?h' = "h(a := ?C')"
  have len: "nat i < length (ps_array_rep ?C)"
    using inv_length [OF assms(1)] assms(2,3) by linarith
  have inv': "PhysicsState_inv P ?C'"
    using assms(1) by (rule inv_update)
  have i': "0 \<le> i" "i < int (ps_n ?C')"
    using assms(2,3) by simp_all
  have set: "view_set_float h a i F_x v = Inr ?h'"
    using entity_view_float_fset_cell [OF assms, of 0 v] by (simp add: view_set_float_def)
  have col: "column_getitem ?C' (PhysicsState_X ?C') i = Inr v"
    using len assms(2,3) y_component_slice [OF inv', of F_x]
    by (simp add: column_getitem_def PhysicsState_X_def np_getitem_def py_index_nonneg)
  have get: "view_get_float ?h' a i F_x = Inr v"
    using len entity_view_float_fget_cell [OF inv' i', of 0] by (simp add: view_get_float_def)
  have "PhysicsState_getitem ?h' a (Pos i) = Inr (EntityView a i)"
    by (simp add: PhysicsState_getitem_def)
  with set col get show ?thesis
    by (intro exI [of _ ?h']) simp
qed

theorem view_mutation_visible_witness:
  "PhysicsState_inv demo_strings (demo_heap 0) \<and> (0::int) \<le> 1 \<and> 1 < int (ps_n (demo_heap 0))
   \<and> (\<exists>h'. view_set_float demo_heap 0 1 F_x 7 = Inr h'
           \<and> column_getitem (h' 0) (PhysicsState_X (h' 0)) 1 = Inr 7
           \<and> PhysicsState_getitem h' 0 (Pos 1) = Inr (EntityView 0 1)
           \<and> view_get_float h' 0 1 F_x = Inr 7)"
proof -
  have inv: "PhysicsState_inv demo_strings (demo_heap 0)"
    by (simp add: demo_heap_def demo_state_inv)
  have n: "(0::int) \<le> 1" "1 < int (ps_n (demo_heap 0))"
    by (simp_all add: demo_heap_def demo_state_def)
  show ?thesis
    using inv n view_mutation_visible [of demo_strings demo_heap 0 1 7] by simp
qed

section \<open>Craft resolution\<close>

lemma craft_both_present:
  assumes inv: "PhysicsState_inv P C"
    and hab: "list_index (ps_entity_names C) HABITAT = Some hi"
    and ayse: "list_index (ps_entity_names C) AYSE = Some ai"
  shows "craft C = Inr (Some (if ps_array_rep C ! (8 * ps_n C + hi) = real ai then AYSE
                              else HABITAT))"
proof -
  have in_names: "AYSE \<in> set (ps_entity_names C)"
    using list_index_None [of "ps_entity_names C" AYSE] ayse by auto
  have "hi < length (ps_entity_names C)"
    using list_index_Some [OF hab] by simp
  then have hi: "hi < ps_n C"
    using inv by (simp add: PhysicsState_inv_def)
  have "np_getitem (ps_array_rep C) (y_component C F_landed_on) (int hi)
          = Inr (ps_array_rep C ! (8 * ps_n C + hi))"
    using hi by (simp add: y_component_slice [OF inv] np_getitem_def)
  then show ?thesis
    using in_names hab ayse
    by (simp add: craft_def name_to_index_def HABITAT_def AYSE_def)
qed

text \<open>
  Claim C3, amended.  In a container whose entity list has the Habitat or has no AYSE,
  \<open>craft\<close> returns: none when neither craft is in the list; the Habitat's name when AYSE
  is not in the list; and, when both are, AYSE's name if the stored landed-on index of
  the Habitat's row equals AYSE's index, else the Habitat's name.  With the entities
  Habitat and AYSE, setting the Habitat's \<open>landed_on\<close> to AYSE gives AYSE, and setting
  it to the empty string gives the Habitat.
\<close>

theorem craft_resolution:
  assumes "PhysicsState_inv P C"
  shows "(HABITAT \<notin> set (ps_entity_names C) \<and> AYSE \<notin> set (ps_entity_names C)
            \<longrightarrow> craft C = Inr None)
       \<and> (HABITAT \<in> set (ps_entity_names C) \<and> AYSE \<notin> set (ps_entity_names C)
            \<longrightarrow> craft C = Inr (Some HABITAT))
       \<and> (list_index (ps_entity_names C) HABITAT = Some hi
          \<and> list_index (ps_entity_names C) AYSE = Some ai
            \<longrightarrow> craft C = Inr (Some (if ps_array_rep C ! (8 * ps_n C + hi) = real ai then AYSE
                                       else HABITAT)))
       \<and> (ps_entity_names C = [HABITAT, AYSE]
            \<longrightarrow> bind_err (entity_view_landed_on_fset C 0 (ENTITY_FIELD_ORDER F_landed_on) AYSE) craft
                  = Inr (Some AYSE)
              \<and> bind_err (entity_view_landed_on_fset C 0 (ENTITY_FIELD_ORDER F_landed_on) '''') craft
                  = Inr (Some HABITAT))"
proof (intro conjI impI)
  assume "HABITAT \<notin> set (ps_entity_names C) \<and> AYSE \<notin> set (ps_entity_names C)"
  then show "craft C = Inr None"
    by (simp add: craft_def)
next
  assume "HABITAT \<in> set (ps_entity_names C) \<and> AYSE \<notin> set (ps_entity_names C)"
  then show "craft C = Inr (Some HABITAT)"
    by (simp add: craft_def)
next
  assume "list_index (ps_entity_names C) HABITAT = Some hi
          \<and> list_index (ps_entity_names C) AYSE = Some ai"
  then show "craft C = Inr (Some (if ps_array_rep C ! (8 * ps_n C + hi) = real ai then AYSE
                                  else HABITAT))"
    using craft_both_present [OF assms] by simp
next
  assume names: "ps_entity_names C = [HABITAT, AYSE]"
  then have n: "ps_n C = 2"
    using assms by (simp add: PhysicsState_inv_def)
  have i: "(0::int) \<le> 0" "0 < int (ps_n C)"
    using n by simp_all
  have len: "16 < length (ps_array_rep C)"
    using inv_length [OF assms] n by simp
  have idx: "list_index (ps_entity_names C) HABITAT = Some 0"
    "list_index (ps_entity_names C) AYSE = Some 1"
    by (simp_all add: names HABITAT_def AYSE_def)
  have k: "name_to_index (ps_entity_names C) AYSE = Inr 1"
    by (simp add: names name_to_index_def HABITAT_def AYSE_def)
  let ?C1 = "C\<lparr>ps_array_rep := (ps_array_rep C)[ps_n C * 8 + nat 0 := of_int 1]\<rparr>"
  have "craft ?C1 = Inr (Some AYSE)"
    using craft_both_present [of P ?C1 0 1] inv_update [OF assms] idx len n by simp
  then show "bind_err (entity_view_landed_on_fset C 0 (ENTITY_FIELD_ORDER F_landed_on) AYSE) craft
               = Inr (Some AYSE)"
    using entity_view_landed_on_fset_cell [OF assms i _ k, of 8] by simp
  let ?C2 = "C\<lparr>ps_array_rep := (ps_array_rep C)[ps_n C * 8 + nat 0 := of_int (- 1)]\<rparr>"
  have "craft ?C2 = Inr (Some HABITAT)"
    using craft_both_present [of P ?C2 0 1] inv_update [OF assms] idx len n by simp
  then show "bind_err (entity_view_landed_on_fset C 0 (ENTITY_FIELD_ORDER F_landed_on) '''') craft
               = Inr (Some HABITAT)"
    using entity_view_landed_on_fset_cell [OF assms i _ name_to_index_empty, of 8] by simp
qed

text \<open>
  Claim C3, as stated, fails: in the container built from the snapshot whose only entity
  is AYSE, \<open>craft\<close> returns neither name nor none, it raises NoEntityError.
\<close>

theorem craft_counterexample:
  "PhysicsState_init demo_strings demo_junk None ayse_only_snapshot = Inr ayse_only_state
   \<and> craft ayse_only_state = Inl NoEntityError"
  by (simp add: ayse_only_state_built)
     (simp add: craft_def ayse_only_state_def name_to_index_def HABITAT_def AYSE_def)

theorem craft_resolution_witness:
  "PhysicsState_inv demo_strings demo_state
   \<and> list_index (ps_entity_names demo_state) HABITAT = Some 0
   \<and> list_index (ps_entity_names demo_state) AYSE = Some 1
   \<and> craft demo_state = Inr (Some AYSE)
   \<and> ps_entity_names demo_state = [HABITAT, AYSE]
   \<and> bind_err (entity_view_landed_on_fset demo_state 0 (ENTITY_FIELD_ORDER F_landed_on) '''') craft
       = Inr (Some HABITAT)
   \<and> PhysicsState_inv demo_strings (demo_state\<lparr>ps_entity_names := [''Earth'', ''Moon'']\<rparr>)
   \<and> HABITAT \<notin> set [''Earth'', ''Moon''] \<and> AYSE \<notin> set [''Earth'', ''Moon'']
   \<and> craft (demo_state\<lparr>ps_entity_names := [''Earth'', ''Moon'']\<rparr>) = Inr None
   \<and> PhysicsState_inv demo_strings (demo_state\<lparr>ps_entity_names := [''Habitat'', ''Moon'']\<rparr>)
   \<and> HABITAT \<in> set [''Habitat'', ''Moon''] \<and> AYSE \<notin> set [''Habitat'', ''Moon'']
   \<and> craft (demo_state\<lparr>ps_entity_names := [''Habitat'', ''Moon'']\<rparr>) = Inr (Some HABITAT)"
proof -
  have inv: "PhysicsState_inv demo_strings demo_state"
    by (rule demo_state_inv)
  then have inv': "PhysicsState_inv demo_strings (demo_state\<lparr>ps_entity_names := [a, b]\<rparr>)" for a b
    by (simp add: PhysicsState_inv_def demo_state_def)
  have names: "ps_entity_names demo_state = [HABITAT, AYSE]"
    by (simp add: demo_state_def HABITAT_def AYSE_def)
  have idx: "list_index (ps_entity_names demo_state) HABITAT = Some 0"
    "list_index (ps_entity_names demo_state) AYSE = Some 1"
    by (simp_all add: demo_state_def HABITAT_def AYSE_def)
  have cell: "ps_array_rep demo_state ! (8 * ps_n demo_state + 0) = real 1"
    by (simp add: demo_state_def)
  have other: "HABITAT \<notin> set [''Earth'', ''Moon'']" "AYSE \<notin> set [''Earth'', ''Moon'']"
    "HABITAT \<in> set [''Habitat'', ''Moon'']" "AYSE \<notin> set [''Habitat'', ''Moon'']"
    by (simp_all add: HABITAT_def AYSE_def)
  show ?thesis
    using inv inv' names idx cell other
      craft_resolution [of demo_strings demo_state 0 1]
      craft_resolution [of demo_strings "demo_state\<lparr>ps_entity_names := [''Earth'', ''Moon'']\<rparr>" 0 1]
      craft_resolution [of demo_strings "demo_state\<lparr>ps_entity_names := [''Habitat'', ''Moon'']\<rparr>" 0 1]
    by simp
qed

section \<open>The cold build of the y-vector\<close>





lemma np_mod_out_length:
  "sl_start s + sl_len s \<le> length buf \<Longrightarrow> length (np_mod_out buf s m) = length buf"
  by (simp add: np_mod_out_def)







lemma expected_size_eq: "expected_size P n = 10 * n + 2 + N_ENGINEERING_FIELDS P"
  by (simp add: expected_size_def PER_ENTITY_MUTABLE_FIELDS_def N_SINGULAR_ELEMENTS_def)








section \<open>Reading the snapshot back\<close>













section \<open>Round trip\<close>





section \<open>Reachability of the invariant and of the iteration order\<close>

text \<open>A container built from a given y-vector satisfies the invariant as well.\<close>

lemma hot_init_inv:
  assumes "PhysicsState_init P junk (Some y) S = Inr C"
  shows "PhysicsState_inv P C"
proof -
  let ?eng = "\<lparr>eng_array = np_slice_from (np_whole y) (ENGINEERING_START_INDEX P)\<rparr>"
  from assms obtain ps
    where len: "length y = expected_size P (length (entities S))"
      and C: "C = \<lparr>ps_proto_state = ps, ps_n = length (entities S),
                    ps_entity_names = map e_name (entities S),
                    ps_array_rep =
                      np_mod_out y
                        (y_component
                           \<lparr>ps_proto_state = ps, ps_n = length (entities S),
                            ps_entity_names = map e_name (entities S), ps_array_rep = y,
                            ps_engineering = ?eng, ps_entities_with_atmospheres = None\<rparr>
                           F_heading) TWO_PI,
                    ps_engineering = ?eng, ps_entities_with_atmospheres = None\<rparr>"
    by (auto simp: PhysicsState_init_def init_hot_def EngineeringState_init_def bind_err_def
        Let_def split: sum.splits if_splits)
  let ?self = "\<lparr>ps_proto_state = ps, ps_n = length (entities S),
                ps_entity_names = map e_name (entities S), ps_array_rep = y,
                ps_engineering = ?eng, ps_entities_with_atmospheres = None\<rparr>"
  have inv0: "PhysicsState_inv P ?self"
    using len by (simp add: PhysicsState_inv_def)
  have hs: "y_component ?self F_heading
              = \<lparr>sl_start = 4 * length (entities S), sl_len = length (entities S)\<rparr>"
    using y_component_slice [OF inv0, of F_heading] by simp
  have "length (np_mod_out y (y_component ?self F_heading) TWO_PI) = length y"
    using len by (intro np_mod_out_length) (simp add: hs expected_size_eq)
  then show ?thesis
    using inv0 unfolding C by (simp add: PhysicsState_inv_def np_whole_def)
qed

text \<open>
  The iteration order of the three collections: positions below the size return the
  listed views, and the position equal to the size raises the IndexError that ends the loop.
\<close>

lemma ComponentList_iter_getitem:
  "i < N_COMPONENTS P \<Longrightarrow>
     ComponentList_getitem P C (Pos (int i)) = Inr (ComponentList_iter P C ! i)"
  "ComponentList_getitem P C (Pos (int (N_COMPONENTS P))) = Inl IndexError"
  by (simp_all add: ComponentList_getitem_Pos ComponentList_iter_def)

lemma CoolantLoopList_iter_getitem:
  "i < N_COOLANT_LOOPS P \<Longrightarrow>
     CoolantLoopList_getitem P C (Pos (int i)) = Inr (CoolantLoopList_iter P C ! i)"
  "CoolantLoopList_getitem P C (Pos (int (N_COOLANT_LOOPS P))) = Inl IndexError"
  by (simp_all add: CoolantLoopList_getitem_Pos CoolantLoopList_iter_def)

lemma RadiatorList_iter_getitem:
  "i < N_RADIATORS P \<Longrightarrow>
     RadiatorList_getitem P C (Pos (int i)) = Inr (RadiatorList_iter P C ! i)"
  "RadiatorList_getitem P C (Pos (int (N_RADIATORS P))) = Inl IndexError"
  by (simp_all add: RadiatorList_getitem_Pos RadiatorList_iter_def)

end
